theory Spec2Isabelle
  imports Complex_Main "HOL-Library.AList"
begin

section \<open>Presence and distance monitoring engine of complete-network-monitor.py\<close>

text \<open>
  A shallow embedding of class \<open>CompleteNetworkMonitor\<close> and of the HTTP handlers
  \<open>update_device\<close>, \<open>clear_alerts\<close> and \<open>export_attendance\<close>.

  Conventions of the embedding.
  \<^item> Python dictionaries with a fixed set of keys (a device, an alert, the calibration, the
    monitor object) are records. A key that may be absent, or whose value may be
    \<open>None\<close>, is an \<open>option\<close> field where every read of it in the source goes through a
    plain \<open>.get\<close> or a truthiness test, which do not tell the two apart. Where a read
    gives a default of its own (\<open>custom_name\<close>, \<open>hostname\<close>, \<open>device_type\<close>), the field
    is an \<open>option option\<close>: \<open>None\<close> is the absent key, \<open>Some None\<close> the key holding
    \<open>None\<close>.
  \<^item> \<open>self.devices\<close> is an insertion-ordered dictionary: an association list read with
    \<open>map_of\<close>, written with \<open>AList.update\<close> (a new key goes to the end) and
    \<open>AList.map_entry\<close> (a field of an existing entry is changed in place).
  \<^item> Python floats are idealised as real numbers: a distance is the decimal that
    \<open>round(x, 1)\<close> returns, and the quotient and the power of the distance formula
    are exact, with no rounding to the nearest double and no intermediate infinity. Kept
    from the float arithmetic are its two exceptions (division by zero raises
    \<open>ZeroDivisionError\<close>, and \<open>math.pow\<close> raises \<open>OverflowError\<close> where the power
    leaves the range of a double) and the rounding of the one difference the code compares
    with a threshold, \<open>abs(distance - prev_distance) > 10\<close>.
  \<^item> Strings are byte strings; the one non-ASCII character of the source (the arrow of
    the distance message) is its three UTF-8 bytes.
  \<^item> The operating system (ping, ARP, DNS, the clock) is a record of oracles, \<open>world\<close>.
    Console output and \<open>play_alert_sound\<close> touch no field of the monitor and swallow
    every error of their own; they are left out.
\<close>

subsection \<open>Data model\<close>

type_synonym timestamp = string

text \<open>A device dictionary, as \<open>scan\<close> creates it and later code extends it.\<close>

record device =
  ip :: string
  mac :: "string option"
  hostname :: "string option option"
  vendor :: "string option"
  first_seen :: timestamp
  monitored :: bool
  device_type :: "string option option"
  custom_name :: "string option option"
  online :: bool
  last_seen :: "timestamp option"
  rssi :: "int option"
  estimated_distance :: "real option"

datatype alert_type = Arrival | Departure | Distance

text \<open>
  An alert dictionary. Its keys \<open>timestamp, type, ip, mac, device_type\<close> carry the prefix
  \<open>alert_\<close> here, since a device has fields of the same names.
\<close>

record alert =
  alert_timestamp :: timestamp
  alert_type :: alert_type
  alert_ip :: string
  alert_mac :: "string option"
  device_name :: "string option"
  alert_device_type :: "string option"
  message :: "string option"

record calibration =
  referenceRSSI :: real
  pathLossExponent :: real
  distanceThreshold :: real

datatype error = ZeroDivisionError | OverflowError

text \<open>
  The monitor object together with the three files it writes. A file that does not exist
  is \<open>None\<close>. \<open>ticks\<close> counts the reads of \<open>datetime.now()\<close> made so far; the world
  maps that count to the time read.
\<close>

record monitor =
  devices :: "(string \<times> device) list"
  scanning :: bool
  monitoring :: bool
  distance_mode :: bool
  alerts :: "alert list"
  calibration :: calibration
  save_file :: "(string \<times> device) list option"
  alerts_file :: "alert list option"
  attendance_file :: "string list list option"
  ticks :: nat

record world =
  local_network :: "string \<times> string"
  ping :: "string \<Rightarrow> bool"
  avg_time :: "string \<Rightarrow> real option"
  get_mac :: "string \<Rightarrow> string option"
  get_hostname :: "string \<Rightarrow> string option"
  now :: "nat \<Rightarrow> timestamp"

subsection \<open>Distance estimator\<close>

text \<open>
  \<open>round(x, 1)\<close>: the nearest multiple of one tenth, a tie going to the even tenth.
\<close>

definition py_round1 :: "real \<Rightarrow> real" where
  "py_round1 x =
     (let f = \<lfloor>x * 10\<rfloor>; r = x * 10 - of_int f
      in of_int (if r < 1 / 2 then f else if 1 / 2 < r then f + 1
                 else if even f then f else f + 1) / 10)"

text \<open>
  The double nearest to a real number, ties going to the even mantissa: \<open>x\<close> lies in
  \<open>[2 ^ e, 2 ^ (e + 1))\<close> for \<open>e = float_exponent x\<close>, where doubles are spaced
  \<open>2 ^ (e - 52)\<close> apart. A distance is held as the decimal that \<open>round(x, 1)\<close>
  prints; Python holds the double nearest to it, and the subtraction of the distance check
  works on those doubles.
\<close>

function float_exponent :: "real \<Rightarrow> int" where
  "float_exponent x =
     (if x \<le> 0 then 0
      else if 2 \<le> x then float_exponent (x / 2) + 1
      else if x < 1 then float_exponent (x * 2) - 1
      else 0)"
  by pat_completeness auto
termination
proof (relation "measure (\<lambda>x. if 1 \<le> x then nat \<lfloor>x\<rfloor> else nat \<lceil>1 / x\<rceil>)", goal_cases)
  case 1
  show ?case by simp
next
  case (2 x)
  then have "\<lfloor>x / 2\<rfloor> < \<lfloor>x\<rfloor>" by linarith
  with 2 show ?case by simp
next
  case (3 x)
  then have x: "0 < x" "x < 1" by simp_all
  show ?case
  proof (cases "1 \<le> x * 2")
    case True
    then have "\<lfloor>x * 2\<rfloor> = 1" using x by linarith
    moreover have "1 < 1 / x" using x by simp
    then have "2 \<le> \<lceil>1 / x\<rceil>" by linarith
    ultimately show ?thesis using x True by simp
  next
    case False
    then have "2 < 1 / x" using x by (simp add: field_simps)
    moreover have "1 / (x * 2) = (1 / x) / 2" by simp
    ultimately have "\<lceil>1 / (x * 2)\<rceil> < \<lceil>1 / x\<rceil>" by linarith
    moreover have "0 < \<lceil>1 / x\<rceil>" using \<open>2 < 1 / x\<close> by linarith
    ultimately show ?thesis using x False by simp
  qed
qed

declare float_exponent.simps [simp del]

definition pow2 :: "int \<Rightarrow> real" where
  "pow2 e = (if 0 \<le> e then 2 ^ nat e else 1 / 2 ^ nat (- e))"

definition round_even :: "real \<Rightarrow> int" where
  "round_even y =
     (let f = \<lfloor>y\<rfloor>; r = y - of_int f
      in if r < 1 / 2 then f else if 1 / 2 < r then f + 1 else if even f then f else f + 1)"

definition double_of :: "real \<Rightarrow> real" where
  "double_of x =
     (if x = 0 then 0
      else let u = pow2 (float_exponent \<bar>x\<bar> - 52) in of_int (round_even (x / u)) * u)"

text \<open>
  The least value that rounds, to nearest, beyond the largest double
  \<open>2 ^ 1024 - 2 ^ 971\<close>: from here on \<open>math.pow\<close> raises \<open>OverflowError\<close>.
\<close>

definition float_overflow :: real where
  "float_overflow = 2 ^ 1024 - 2 ^ 970"

text \<open>
  \<open>calculate_distance\<close>: \<open>None\<close> for a falsy \<open>rssi\<close> (\<open>None\<close> or zero); the quotient
  raises \<open>ZeroDivisionError\<close> when \<open>10 * pathLossExponent\<close> is zero, and \<open>math.pow\<close>
  raises \<open>OverflowError\<close> when the power is out of range.
\<close>

definition calculate_distance :: "calibration \<Rightarrow> int option \<Rightarrow> error + real option" where
  "calculate_distance cal r =
     (case r of
        None \<Rightarrow> Inr None
      | Some v \<Rightarrow>
          if v = 0 then Inr None
          else if 10 * pathLossExponent cal = 0 then Inl ZeroDivisionError
          else
            let distance = 10 powr ((referenceRSSI cal - of_int v) / (10 * pathLossExponent cal))
            in if float_overflow \<le> distance then Inl OverflowError
               else Inr (Some (py_round1 distance)))"

text \<open>\<open>get_zone\<close>: the first test is Python's \<open>not distance\<close>, true of \<open>None\<close> and of zero.\<close>

definition get_zone :: "real option \<Rightarrow> string" where
  "get_zone distance =
     (case distance of
        None \<Rightarrow> ''unknown''
      | Some d \<Rightarrow>
          if d = 0 then ''unknown''
          else if d < 10 then ''on-site''
          else if d < 30 then ''near-site''
          else if d < 50 then ''leaving''
          else ''away'')"

text \<open>
  \<open>ping_with_stats\<close>: the average round-trip time the operating system reports (the
  oracle \<open>avg_time\<close>, \<open>None\<close> when the command fails, times out or prints no average)
  is bucketed into a signal strength; without a sample the answer is \<open>-70\<close>.
\<close>

definition ping_with_stats :: "world \<Rightarrow> string \<Rightarrow> int" where
  "ping_with_stats w a =
     (case avg_time w a of
        None \<Rightarrow> - 70
      | Some t \<Rightarrow>
          if t < 2 then - 40
          else if t < 5 then - 50
          else if t < 10 then - 60
          else if t < 20 then - 70
          else if t < 50 then - 80
          else - 90)"

text \<open>Python's truthiness of an optional number: \<open>None\<close> and zero are false.\<close>

definition truthy :: "real option \<Rightarrow> bool" where
  "truthy x = (case x of None \<Rightarrow> False | Some v \<Rightarrow> v \<noteq> 0)"

subsection \<open>Identity resolver\<close>

definition MAC_VENDORS :: "(string \<times> string) list" where
  "MAC_VENDORS =
     [(''60:CF:84'', ''ASUS''), (''0C:C4:13'', ''Google''), (''1C:BF:C0'', ''TP-Link''),
      (''48:B0:2D'', ''NVIDIA Corporation''), (''78:80:38'', ''Samsung Electronics''),
      (''04:D9:F5'', ''Apple Inc.''), (''00:50:56'', ''VMware''), (''F0:D4:15'', ''Realtek''),
      (''04:7C:16'', ''Realtek''), (''00:24:27'', ''ASUS''), (''0A:00:27'', ''VirtualBox''),
      (''F2:D4:15'', ''Microsoft''), (''00:0C:29'', ''VMware''), (''DC:A6:32'', ''Raspberry Pi''),
      (''B8:27:EB'', ''Raspberry Pi''), (''E4:5F:01'', ''Raspberry Pi'')]"

definition get_vendor :: "string option \<Rightarrow> string option" where
  "get_vendor m =
     (case m of
        None \<Rightarrow> None
      | Some s \<Rightarrow> if s = [] then None else map_of MAC_VENDORS (take 8 s))"

subsection \<open>Formatting\<close>

text \<open>\<open>str(n)\<close> of a natural number, \<open>str(i)\<close> of an integer, and \<open>int(x)\<close> of a float.\<close>

function str_nat :: "nat \<Rightarrow> string" where
  "str_nat n =
     (if n < 10 then [''0123456789'' ! n]
      else str_nat (n div 10) @ [''0123456789'' ! (n mod 10)])"
  by pat_completeness auto
termination
  by (relation "measure id") auto

declare str_nat.simps [simp del]

definition str_int :: "int \<Rightarrow> string" where
  "str_int i = (if i < 0 then CHR ''-'' # str_nat (nat (- i)) else str_nat (nat i))"

definition py_int :: "real \<Rightarrow> int" where
  "py_int x = (if 0 \<le> x then \<lfloor>x\<rfloor> else \<lceil>x\<rceil>)"

definition type_str :: "alert_type \<Rightarrow> string" where
  "type_str t = (case t of Arrival \<Rightarrow> ''arrival'' | Departure \<Rightarrow> ''departure''
                 | Distance \<Rightarrow> ''distance'')"

text \<open>\<open>alert['type'].upper()\<close>.\<close>

definition type_upper :: "alert_type \<Rightarrow> string" where
  "type_upper t = (case t of Arrival \<Rightarrow> ''ARRIVAL'' | Departure \<Rightarrow> ''DEPARTURE''
                   | Distance \<Rightarrow> ''DISTANCE'')"

text \<open>What \<open>csv.writer\<close> writes for an optional string: \<open>None\<close> becomes the empty cell.\<close>

definition csv_cell :: "string option \<Rightarrow> string" where
  "csv_cell x = (case x of None \<Rightarrow> [] | Some s \<Rightarrow> s)"

text \<open>
  The date and the time of day of a timestamp written by \<open>isoformat()\<close>
  (\<open>YYYY-MM-DDTHH:MM:SS[.ffffff]\<close>), as \<open>fromisoformat\<close> followed by
  \<open>strftime('%Y-%m-%d')\<close> and \<open>strftime('%H:%M:%S')\<close> give them back.
\<close>

definition iso_date :: "timestamp \<Rightarrow> string" where
  "iso_date ts = take 10 ts"

definition iso_time :: "timestamp \<Rightarrow> string" where
  "iso_time ts = take 8 (drop 11 ts)"

text \<open>How an f-string prints an optional string: \<open>None\<close> prints as "None".\<close>

definition py_str :: "string option \<Rightarrow> string" where
  "py_str x = (case x of None \<Rightarrow> ''None'' | Some s \<Rightarrow> s)"

text \<open>
  The name shown in the distance message,
  \<open>device.get('custom_name', device.get('hostname', ip))\<close> inside an f-string, \<open>ip\<close>
  being the address the loop is at.
\<close>

definition display_name :: "device \<Rightarrow> string \<Rightarrow> string" where
  "display_name d a =
     (case custom_name d of
        Some n \<Rightarrow> py_str n
      | None \<Rightarrow> (case hostname d of Some h \<Rightarrow> py_str h | None \<Rightarrow> a))"

definition distance_message :: "device \<Rightarrow> string \<Rightarrow> real \<Rightarrow> real \<Rightarrow> string" where
  "distance_message d a prev_distance distance =
     display_name d a @ '' moved from '' @ get_zone (Some prev_distance) @ '' to ''
       @ get_zone (Some distance) @ '' ('' @ str_int (py_int prev_distance) @ ''m ''
       @ [CHR 0xE2, CHR 0x86, CHR 0x92] @ '' '' @ str_int (py_int distance) @ ''m)''"

subsection \<open>Alert ledger\<close>

definition save_data :: "monitor \<Rightarrow> monitor" where
  "save_data m = m\<lparr>save_file := Some (devices m), alerts_file := Some (alerts m)\<rparr>"

definition attendance_header :: "string list" where
  "attendance_header =
     [''Timestamp'', ''Type'', ''Name'', ''IP'', ''MAC'', ''Device Type'', ''Message'']"

definition attendance_row :: "alert \<Rightarrow> string list" where
  "attendance_row a =
     [alert_timestamp a, type_str (alert_type a), csv_cell (device_name a), alert_ip a,
      csv_cell (alert_mac a), csv_cell (alert_device_type a), csv_cell (message a)]"

text \<open>\<open>log_attendance\<close>: open for appending; a file that did not exist gets the header first.\<close>

definition log_attendance :: "alert \<Rightarrow> monitor \<Rightarrow> monitor" where
  "log_attendance a m =
     m\<lparr>attendance_file :=
         Some (case attendance_file m of
                 None \<Rightarrow> [attendance_header, attendance_row a]
               | Some rows \<Rightarrow> rows @ [attendance_row a])\<rparr>"

text \<open>
  The dictionary \<open>add_alert\<close> builds. The name is
  \<open>device.get('custom_name', device.get('hostname', 'Unknown'))\<close> and the type
  \<open>device.get('device_type', 'unknown')\<close>: a default is taken only for an absent key.
  The key \<open>message\<close> is set only for a truthy message (neither \<open>None\<close> nor empty).
\<close>

definition make_alert :: "timestamp \<Rightarrow> device \<Rightarrow> alert_type \<Rightarrow> string option \<Rightarrow> alert" where
  "make_alert ts d t msg =
     \<lparr>alert_timestamp = ts, alert_type = t, alert_ip = ip d, alert_mac = mac d,
      device_name = (case custom_name d of
                       Some n \<Rightarrow> n
                     | None \<Rightarrow> (case hostname d of Some h \<Rightarrow> h | None \<Rightarrow> Some ''Unknown'')),
      alert_device_type = (case device_type d of Some v \<Rightarrow> v | None \<Rightarrow> Some ''unknown''),
      message = (case msg of None \<Rightarrow> None | Some s \<Rightarrow> if s = [] then None else Some s)\<rparr>"

text \<open>
  The states the monitor passes through during one call of \<open>add_alert\<close>, in program
  order: after \<open>self.alerts.insert(0, alert)\<close>, after the truncation to 1000 entries,
  after \<open>log_attendance\<close>, after \<open>save_data\<close>. The call returns in the last of them.
\<close>

definition add_alert_states ::
  "world \<Rightarrow> device \<Rightarrow> alert_type \<Rightarrow> string option \<Rightarrow> monitor \<Rightarrow> monitor list" where
  "add_alert_states w d t msg m =
     (let a = make_alert (now w (ticks m)) d t msg;
          m1 = m\<lparr>alerts := a # alerts m, ticks := Suc (ticks m)\<rparr>;
          m2 = m1\<lparr>alerts := take 1000 (alerts m1)\<rparr>;
          m3 = log_attendance a m2;
          m4 = save_data m3
      in [m1, m2, m3, m4])"

definition add_alert :: "world \<Rightarrow> device \<Rightarrow> alert_type \<Rightarrow> string option \<Rightarrow> monitor \<Rightarrow> monitor" where
  "add_alert w d t msg m = last (add_alert_states w d t msg m)"

text \<open>Any number of calls of \<open>add_alert\<close>, one after the other.\<close>

definition record_all ::
  "world \<Rightarrow> (device \<times> alert_type \<times> string option) list \<Rightarrow> monitor \<Rightarrow> monitor" where
  "record_all w calls m = fold (\<lambda>(d, t, msg). add_alert w d t msg) calls m"

subsection \<open>Scan cycle\<close>

definition candidates :: "string \<Rightarrow> string list" where
  "candidates base = map (\<lambda>i. base @ ''.'' @ str_nat i) [1..<255]"

definition new_device :: "world \<Rightarrow> string \<Rightarrow> timestamp \<Rightarrow> device" where
  "new_device w a ts =
     (let m = get_mac w a; h = get_hostname w a
      in \<lparr>ip = a, mac = m, hostname = Some h, vendor = get_vendor m, first_seen = ts,
          monitored = False, device_type = Some (Some ''employee''), custom_name = None,
          online = False,
          last_seen = None, rssi = None, estimated_distance = None\<rparr>)"

text \<open>\<open>if ip not in self.devices\<close>: the new record goes to the end of the dictionary.\<close>

definition register_host :: "world \<Rightarrow> string \<Rightarrow> monitor \<Rightarrow> monitor" where
  "register_host w a m =
     (if map_of (devices m) a = None
      then m\<lparr>devices := AList.update a (new_device w a (now w (ticks m))) (devices m),
             ticks := Suc (ticks m)\<rparr>
      else m)"

definition mark_online :: "world \<Rightarrow> string \<Rightarrow> monitor \<Rightarrow> monitor" where
  "mark_online w a m =
     m\<lparr>devices :=
         AList.map_entry a (\<lambda>d. d\<lparr>online := True, last_seen := Some (now w (ticks m))\<rparr>)
           (devices m),
       ticks := Suc (ticks m)\<rparr>"

text \<open>
  The check for a distance change, lines 1388 to 1397: \<open>previous_distances.get(ip)\<close>
  and \<open>distance\<close> must both be truthy. Their difference is a float subtraction: the
  two doubles are subtracted and the result is rounded to the nearest double. The device is read back from the registry, where
  \<open>register_host\<close> has put it.
\<close>

definition distance_check ::
  "world \<Rightarrow> (string \<times> real option) list \<Rightarrow> string \<Rightarrow> real option \<Rightarrow> monitor \<Rightarrow> monitor" where
  "distance_check w previous_distances a distance m =
     (let prev = (case map_of previous_distances a of None \<Rightarrow> None | Some v \<Rightarrow> v)
      in if monitoring m \<and> truthy prev \<and> truthy distance then
           (case (prev, distance) of
              (Some prev_distance, Some x) \<Rightarrow>
                if 10 < \<bar>double_of (double_of x - double_of prev_distance)\<bar>
                   \<and> get_zone (Some prev_distance) \<noteq> get_zone (Some x)
                then (case map_of (devices m) a of
                        None \<Rightarrow> m
                      | Some d \<Rightarrow>
                          add_alert w d Distance
                            (Some (distance_message d a prev_distance x)) m)
                else m
            | _ \<Rightarrow> m)
         else m)"

text \<open>
  The body of the loop over the candidate addresses. An exception of
  \<open>calculate_distance\<close> leaves \<open>scan\<close> in the state reached so far.
\<close>

definition scan_host ::
  "world \<Rightarrow> (string \<times> real option) list \<Rightarrow> string \<Rightarrow> monitor \<Rightarrow> (error \<times> monitor) + monitor" where
  "scan_host w previous_distances a m =
     (if \<not> ping w a then Inr m
      else
        let m1 = mark_online w a (register_host w a m)
        in if \<not> distance_mode m1 then Inr m1
           else
             let r = ping_with_stats w a
             in case calculate_distance (calibration m1) (Some r) of
                  Inl e \<Rightarrow> Inl (e, m1)
                | Inr distance \<Rightarrow>
                    Inr (distance_check w previous_distances a distance
                          (m1\<lparr>devices :=
                                AList.map_entry a
                                  (\<lambda>d. d\<lparr>rssi := Some r, estimated_distance := distance\<rparr>)
                                  (devices m1)\<rparr>)))"

fun sweep ::
  "world \<Rightarrow> (string \<times> real option) list \<Rightarrow> string list \<Rightarrow> monitor \<Rightarrow> (error \<times> monitor) + monitor" where
  "sweep w previous_distances [] m = Inr m"
| "sweep w previous_distances (a # as) m =
     (case scan_host w previous_distances a m of
        Inl e \<Rightarrow> Inl e
      | Inr m' \<Rightarrow> sweep w previous_distances as m')"

text \<open>The body of the loop over \<open>self.devices.items()\<close>, lines 1406 to 1421.\<close>

definition presence_step :: "world \<Rightarrow> (string \<times> bool) list \<Rightarrow> string \<times> device \<Rightarrow> monitor \<Rightarrow> monitor" where
  "presence_step w previous_online kd m =
     (case kd of (k, d) \<Rightarrow>
        if monitored d then
          (let was_online = (case map_of previous_online k of None \<Rightarrow> False | Some b \<Rightarrow> b);
               is_online = online d
           in if was_online \<and> \<not> is_online then add_alert w d Departure None m
              else if \<not> was_online \<and> is_online then add_alert w d Arrival None m
              else m)
        else m)"

text \<open>
  \<open>scan\<close>. A call that finds \<open>scanning\<close> set returns at once. Otherwise the flag is set,
  the two snapshots are taken, every \<open>online\<close> flag is cleared, the candidates are swept,
  the presence transitions are evaluated when \<open>monitoring\<close> is set, the flag is cleared
  and the data is saved. An exception of the sweep ends the call where it is raised.
\<close>

definition scan :: "world \<Rightarrow> monitor \<Rightarrow> (error \<times> monitor) + monitor" where
  "scan w m =
     (if scanning m then Inr m
      else
        let m1 = m\<lparr>scanning := True\<rparr>;
            base = fst (local_network w);
            previous_online = map (\<lambda>(k, d). (k, online d)) (devices m1);
            previous_distances = map (\<lambda>(k, d). (k, estimated_distance d)) (devices m1);
            m2 = m1\<lparr>devices := map (\<lambda>(k, d). (k, d\<lparr>online := False\<rparr>)) (devices m1)\<rparr>
        in case sweep w previous_distances (candidates base) m2 of
             Inl e \<Rightarrow> Inl e
           | Inr m3 \<Rightarrow>
               let m4 = (if monitoring m3
                         then fold (presence_step w previous_online) (devices m3) m3
                         else m3)
               in Inr (save_data (m4\<lparr>scanning := False\<rparr>)))"

subsection \<open>HTTP handlers\<close>

text \<open>
  The JSON body of \<open>/update_device\<close>: each key may be missing (\<open>None\<close>); a name or a
  device type may also be sent as \<open>null\<close> (\<open>Some None\<close>).
\<close>

record update_request =
  req_ip :: "string option"
  req_name :: "string option option"
  req_monitored :: "bool option"
  req_device_type :: "string option option"

datatype response = Updated | Not_found

definition update_device :: "update_request \<Rightarrow> monitor \<Rightarrow> response \<times> monitor" where
  "update_device data m =
     (case req_ip data of
        None \<Rightarrow> (Not_found, m)
      | Some a \<Rightarrow>
          if map_of (devices m) a \<noteq> None
          then (Updated,
                save_data (m\<lparr>devices :=
                  AList.map_entry a
                    (\<lambda>d. d\<lparr>custom_name :=
                             Some (case req_name data of None \<Rightarrow> Some [] | Some n \<Rightarrow> n),
                           monitored := (case req_monitored data of None \<Rightarrow> False | Some b \<Rightarrow> b),
                           device_type :=
                             Some (case req_device_type data of
                                     None \<Rightarrow> Some ''employee''
                                   | Some t \<Rightarrow> t)\<rparr>)
                    (devices m)\<rparr>))
          else (Not_found, m))"

definition clear_alerts :: "monitor \<Rightarrow> monitor" where
  "clear_alerts m = save_data (m\<lparr>alerts := []\<rparr>)"

definition export_header :: "string list" where
  "export_header =
     [''Time'', ''Action'', ''Name'', ''Device Type'', ''IP'', ''MAC'', ''Distance'', ''Message'']"

text \<open>
  One row of the export. \<open>fmt\<close> is Python's conversion of a float to text. The device is
  looked up in the registry as it is when the export runs.
\<close>

definition export_row :: "(real \<Rightarrow> string) \<Rightarrow> (string \<times> device) list \<Rightarrow> alert \<Rightarrow> string list" where
  "export_row fmt devs a =
     (let distance = (case map_of devs (alert_ip a) of
                        None \<Rightarrow> None
                      | Some d \<Rightarrow> estimated_distance d)
      in [iso_time (alert_timestamp a), type_upper (alert_type a), csv_cell (device_name a),
          csv_cell (alert_device_type a), alert_ip a, csv_cell (alert_mac a),
          (case distance of
             None \<Rightarrow> []
           | Some x \<Rightarrow> if x \<noteq> 0 then fmt x @ ''m'' else []),
          csv_cell (message a)])"

text \<open>
  \<open>export_attendance\<close>: the rows written to the temporary file. \<open>today\<close> is
  \<open>datetime.now().strftime('%Y-%m-%d')\<close>, the default of the query parameter \<open>date\<close>.
\<close>

definition export_attendance ::
  "(real \<Rightarrow> string) \<Rightarrow> string \<Rightarrow> string option \<Rightarrow> monitor \<Rightarrow> string list list" where
  "export_attendance fmt today date_arg m =
     (let date = (case date_arg of None \<Rightarrow> today | Some s \<Rightarrow> s)
      in export_header
         # map (export_row fmt (devices m))
             (filter (\<lambda>a. iso_date (alert_timestamp a) = date) (alerts m)))"

subsection \<open>Notions used to state the properties of a scan\<close>

text \<open>
  The rows of the attendance file, and the number of them that record an alert of type
  \<open>t\<close> for the address \<open>a\<close>. The header row is none of them. The file is never
  truncated, so this count, unlike the in-memory list, keeps every alert ever recorded.
\<close>

definition attendance_rows :: "monitor \<Rightarrow> string list list" where
  "attendance_rows m = (case attendance_file m of None \<Rightarrow> [] | Some rows \<Rightarrow> rows)"

definition logged :: "alert_type \<Rightarrow> string \<Rightarrow> monitor \<Rightarrow> nat" where
  "logged t a m =
     length (filter (\<lambda>r. length r = 7 \<and> r ! 1 = type_str t \<and> r ! 3 = a) (attendance_rows m))"

text \<open>
  A registry as \<open>scan\<close> builds it: the keys are distinct, as in any dictionary, and each
  record carries its key in the field \<open>ip\<close>.
\<close>

definition wf_registry :: "(string \<times> device) list \<Rightarrow> bool" where
  "wf_registry devs = (distinct (map fst devs) \<and> list_all (\<lambda>(k, d). ip d = k) devs)"

text \<open>
  The six signal strengths \<open>ping_with_stats\<close> can return, and the calibrations under
  which \<open>calculate_distance\<close> raises for none of them.
\<close>

definition signal_strengths :: "int list" where
  "signal_strengths = [- 40, - 50, - 60, - 70, - 80, - 90]"

definition estimates_defined :: "calibration \<Rightarrow> bool" where
  "estimates_defined cal =
     list_all (\<lambda>r. \<not> isl (calculate_distance cal (Some r))) signal_strengths"

text \<open>A host is reachable in a cycle when the sweep probes its address and the probe succeeds.\<close>

definition reachable :: "world \<Rightarrow> string \<Rightarrow> bool" where
  "reachable w a = (a \<in> set (candidates (fst (local_network w))) \<and> ping w a)"

subsection \<open>States used in the examples\<close>

text \<open>The monitor as \<open>__init__\<close> leaves it when none of its three files exists.\<close>

definition fresh_monitor :: monitor where
  "fresh_monitor =
     \<lparr>devices = [], scanning = False, monitoring = False, distance_mode = False, alerts = [],
      calibration = \<lparr>referenceRSSI = - 40, pathLossExponent = 2, distanceThreshold = 50\<rparr>,
      save_file = None, alerts_file = None, attendance_file = None, ticks = 0\<rparr>"

text \<open>A network on which no host answers.\<close>

definition silent_world :: world where
  "silent_world =
     \<lparr>local_network = (''192.168.1'', ''192.168.1.10''), ping = (\<lambda>a. False),
      avg_time = (\<lambda>a. None), get_mac = (\<lambda>a. None), get_hostname = (\<lambda>a. None),
      now = (\<lambda>n. ''2024-05-01T09:00:00'')\<rparr>"

text \<open>A laptop known to the registry, seen at eight metres.\<close>

definition laptop :: device where
  "laptop =
     \<lparr>ip = ''192.168.1.7'', mac = Some ''04:D9:F5:00:00:01'',
      hostname = Some (Some ''laptop''), vendor = Some ''Apple Inc.'',
      first_seen = ''2024-04-30T08:00:00'', monitored = True,
      device_type = Some (Some ''employee''), custom_name = None, online = True,
      last_seen = Some ''2024-04-30T17:00:00'', rssi = Some (- 50),
      estimated_distance = Some 8\<rparr>"

text \<open>An office whose registry holds the laptop, and the same with the laptop unmonitored,
  monitoring and distance mode on.\<close>

definition office :: monitor where
  "office = fresh_monitor\<lparr>devices := [(''192.168.1.7'', laptop)]\<rparr>"

definition guest_office :: monitor where
  "guest_office =
     fresh_monitor\<lparr>devices := [(''192.168.1.7'', laptop\<lparr>monitored := False\<rparr>)],
       monitoring := True, distance_mode := True\<rparr>"

text \<open>A network on which only the laptop answers, after 30 ms on average.\<close>

definition lone_world :: world where
  "lone_world = silent_world\<lparr>ping := (\<lambda>a. a = ''192.168.1.7''), avg_time := (\<lambda>a. Some 30)\<rparr>"

section \<open>Zones\<close>

text \<open>
  C1, as stated, fails: the distance \<open>0.0\<close> is defined and lies in \<open>[0, 10)\<close>, yet
  \<open>get_zone\<close> answers "unknown" for it, not "on-site".
\<close>

theorem get_zone_zero_unknown:
  "get_zone (Some 0) = ''unknown'' \<and> get_zone (Some 0) \<noteq> ''on-site''"
  by (simp add: get_zone_def)

text \<open>
  C1, amended: an undefined distance and the distance zero yield "unknown"; every other
  distance yields one of the four named zones, on-site when \<open>0 < d < 10\<close>, near-site when
  \<open>10 \<le> d < 30\<close>, leaving when \<open>30 \<le> d < 50\<close> and away when \<open>d \<ge> 50\<close>; in particular 9.9 is
  on-site, 10.0 near-site, 49.9 leaving and 50.0 away.
\<close>

theorem get_zone_bands:
  "get_zone None = ''unknown'' \<and> get_zone (Some 0) = ''unknown''
   \<and> (0 < d \<and> d < 10 \<longrightarrow> get_zone (Some d) = ''on-site'')
   \<and> (10 \<le> d \<and> d < 30 \<longrightarrow> get_zone (Some d) = ''near-site'')
   \<and> (30 \<le> d \<and> d < 50 \<longrightarrow> get_zone (Some d) = ''leaving'')
   \<and> (50 \<le> d \<longrightarrow> get_zone (Some d) = ''away'')
   \<and> (d \<noteq> 0 \<longrightarrow> get_zone (Some d) \<in> {''on-site'', ''near-site'', ''leaving'', ''away''})
   \<and> get_zone (Some (99 / 10)) = ''on-site'' \<and> get_zone (Some 10) = ''near-site''
   \<and> get_zone (Some (499 / 10)) = ''leaving'' \<and> get_zone (Some 50) = ''away''"
  by (simp add: get_zone_def)

theorem get_zone_bands_witness:
  "(0 < (5::real) \<and> (5::real) < 10) \<and> get_zone (Some 5) = ''on-site''
   \<and> (10 \<le> (20::real) \<and> (20::real) < 30) \<and> get_zone (Some 20) = ''near-site''
   \<and> (30 \<le> (40::real) \<and> (40::real) < 50) \<and> get_zone (Some 40) = ''leaving''
   \<and> 50 \<le> (75::real) \<and> get_zone (Some 75) = ''away''"
  using get_zone_bands [of 5] get_zone_bands [of 20] get_zone_bands [of 40]
    get_zone_bands [of 75]
  by simp

section \<open>Distance estimate\<close>



lemma float_overflow_large: "x \<le> 1000 \<Longrightarrow> \<not> float_overflow \<le> x"
  by (simp add: float_overflow_def)




section \<open>Reentrancy guard\<close>

text \<open>
  C6: a scan requested while the flag \<open>scanning\<close> is set returns at once, and the monitor
  it returns in is the monitor it was called in: registry, ledger and the three files are
  the same, and nothing is left behind to run later.
\<close>

theorem scan_reentrant_noop: "scanning m \<Longrightarrow> scan w m = Inr m"
  by (simp add: scan_def)

theorem scan_reentrant_noop_witness:
  "scanning (fresh_monitor\<lparr>scanning := True\<rparr>)
   \<and> scan silent_world (fresh_monitor\<lparr>scanning := True\<rparr>)
       = Inr (fresh_monitor\<lparr>scanning := True\<rparr>)"
  using scan_reentrant_noop [of "fresh_monitor\<lparr>scanning := True\<rparr>" silent_world]
  by simp

section \<open>Editing a device\<close>

lemma map_fst_map_entry: "map fst (AList.map_entry k f al) = map fst al"
  by (induction al) auto

text \<open>
  C8: \<open>update_device\<close> with an address that is no key of the registry (or with no address)
  answers not-found and returns the monitor unchanged, files included. With a known
  address it answers updated, the record under that address holds the requested name,
  monitored flag and device type (or their defaults), and the registry and the alert list
  have been written to their files.
\<close>

theorem update_device_result:
  "(req_ip data = None \<longrightarrow> update_device data m = (Not_found, m))
   \<and> (req_ip data = Some a \<and> a \<notin> fst ` set (devices m) \<longrightarrow>
        update_device data m = (Not_found, m))
   \<and> (req_ip data = Some a \<and> a \<in> fst ` set (devices m) \<longrightarrow>
        fst (update_device data m) = Updated
        \<and> (\<exists>d'. map_of (devices (snd (update_device data m))) a = Some d'
              \<and> custom_name d' = Some (case req_name data of None \<Rightarrow> Some [] | Some n \<Rightarrow> n)
              \<and> monitored d' = (case req_monitored data of None \<Rightarrow> False | Some b \<Rightarrow> b)
              \<and> device_type d'
                  = Some (case req_device_type data of None \<Rightarrow> Some ''employee'' | Some t \<Rightarrow> t))
        \<and> save_file (snd (update_device data m)) = Some (devices (snd (update_device data m)))
        \<and> alerts_file (snd (update_device data m)) = Some (alerts m))"
proof -
  have known: "fst (update_device data m) = Updated
        \<and> (\<exists>d'. map_of (devices (snd (update_device data m))) a = Some d'
              \<and> custom_name d' = Some (case req_name data of None \<Rightarrow> Some [] | Some n \<Rightarrow> n)
              \<and> monitored d' = (case req_monitored data of None \<Rightarrow> False | Some b \<Rightarrow> b)
              \<and> device_type d'
                  = Some (case req_device_type data of None \<Rightarrow> Some ''employee'' | Some t \<Rightarrow> t))
        \<and> save_file (snd (update_device data m)) = Some (devices (snd (update_device data m)))
        \<and> alerts_file (snd (update_device data m)) = Some (alerts m)"
    if ip: "req_ip data = Some a" and key: "a \<in> fst ` set (devices m)"
  proof -
    obtain d where d: "map_of (devices m) a = Some d"
      using key by (cases "map_of (devices m) a") (auto simp: map_of_eq_None_iff)
    show ?thesis
      using ip d by (simp add: update_device_def save_data_def map_of_map_entry)
  qed
  have "update_device data m = (Not_found, m)"
    if "req_ip data = None \<or> (req_ip data = Some a \<and> a \<notin> fst ` set (devices m))"
    using that by (auto simp: update_device_def map_of_eq_None_iff)
  with known show ?thesis by blast
qed

theorem update_device_result_witness:
  "(req_ip \<lparr>req_ip = Some ''192.168.1.9'', req_name = Some (Some ''Ann''),
            req_monitored = Some True, req_device_type = None\<rparr> = Some ''192.168.1.9''
    \<and> ''192.168.1.9'' \<notin> fst ` set (devices fresh_monitor))
   \<and> update_device \<lparr>req_ip = Some ''192.168.1.9'', req_name = Some (Some ''Ann''),
        req_monitored = Some True, req_device_type = None\<rparr> fresh_monitor
      = (Not_found, fresh_monitor)
   \<and> (req_ip \<lparr>req_ip = Some ''192.168.1.7'', req_name = Some (Some ''Ann''),
            req_monitored = Some True, req_device_type = None\<rparr> = Some ''192.168.1.7''
    \<and> ''192.168.1.7'' \<in> fst ` set (devices office))
   \<and> fst (update_device \<lparr>req_ip = Some ''192.168.1.7'', req_name = Some (Some ''Ann''),
        req_monitored = Some True, req_device_type = None\<rparr> office) = Updated
   \<and> save_file (snd (update_device \<lparr>req_ip = Some ''192.168.1.7'',
        req_name = Some (Some ''Ann''), req_monitored = Some True, req_device_type = None\<rparr>
        office))
      = Some (devices (snd (update_device \<lparr>req_ip = Some ''192.168.1.7'',
        req_name = Some (Some ''Ann''), req_monitored = Some True, req_device_type = None\<rparr>
        office)))"
  using update_device_result [of "\<lparr>req_ip = Some ''192.168.1.9'', req_name = Some (Some ''Ann''),
        req_monitored = Some True, req_device_type = None\<rparr>" fresh_monitor "''192.168.1.9''"]
    update_device_result [of "\<lparr>req_ip = Some ''192.168.1.7'', req_name = Some (Some ''Ann''),
        req_monitored = Some True, req_device_type = None\<rparr>" office "''192.168.1.7''"]
  by (simp add: fresh_monitor_def office_def)

text \<open>
  C9: a successful \<open>update_device\<close> sets \<open>custom_name\<close>, \<open>monitored\<close> and
  \<open>device_type\<close> of the addressed device to the requested values (or their defaults) and
  leaves its nine other fields as they were; the records under every other key, the
  order of the keys and the alert list are unchanged.
\<close>

theorem update_device_frame:
  "req_ip data = Some a \<and> map_of (devices m) a = Some d \<longrightarrow>
     (\<exists>d'. map_of (devices (snd (update_device data m))) a = Some d'
        \<and> custom_name d' = Some (case req_name data of None \<Rightarrow> Some [] | Some n \<Rightarrow> n)
        \<and> monitored d' = (case req_monitored data of None \<Rightarrow> False | Some b \<Rightarrow> b)
        \<and> device_type d'
            = Some (case req_device_type data of None \<Rightarrow> Some ''employee'' | Some t \<Rightarrow> t)
        \<and> ip d' = ip d \<and> mac d' = mac d \<and> hostname d' = hostname d \<and> vendor d' = vendor d
        \<and> online d' = online d \<and> first_seen d' = first_seen d \<and> last_seen d' = last_seen d
        \<and> rssi d' = rssi d \<and> estimated_distance d' = estimated_distance d)
     \<and> (\<forall>k. k \<noteq> a \<longrightarrow> map_of (devices (snd (update_device data m))) k = map_of (devices m) k)
     \<and> map fst (devices (snd (update_device data m))) = map fst (devices m)
     \<and> alerts (snd (update_device data m)) = alerts m"
  by (simp add: update_device_def save_data_def map_of_map_entry map_fst_map_entry)

theorem update_device_frame_witness:
  "(req_ip \<lparr>req_ip = Some ''192.168.1.7'', req_name = Some (Some ''Ann''),
            req_monitored = Some False, req_device_type = Some (Some ''visitor'')\<rparr>
      = Some ''192.168.1.7''
    \<and> map_of (devices office) ''192.168.1.7'' = Some laptop)
   \<and> alerts (snd (update_device \<lparr>req_ip = Some ''192.168.1.7'', req_name = Some (Some ''Ann''),
        req_monitored = Some False, req_device_type = Some (Some ''visitor'')\<rparr> office))
       = alerts office"
  using update_device_frame [of "\<lparr>req_ip = Some ''192.168.1.7'', req_name = Some (Some ''Ann''),
        req_monitored = Some False, req_device_type = Some (Some ''visitor'')\<rparr>" "''192.168.1.7''"
        office laptop]
  by (simp add: fresh_monitor_def office_def)

section \<open>Alert ledger\<close>

lemma add_alert_eq:
  "add_alert w d t msg m =
     m\<lparr>alerts := take 1000 (make_alert (now w (ticks m)) d t msg # alerts m),
       ticks := Suc (ticks m),
       attendance_file :=
         Some ((case attendance_file m of None \<Rightarrow> [attendance_header] | Some rows \<Rightarrow> rows)
               @ [attendance_row (make_alert (now w (ticks m)) d t msg)]),
       save_file := Some (devices m),
       alerts_file := Some (take 1000 (make_alert (now w (ticks m)) d t msg # alerts m))\<rparr>"
  by (simp add: add_alert_def add_alert_states_def Let_def log_attendance_def save_data_def
      split: option.split)

text \<open>
  C3, as stated, fails: the first thing \<open>add_alert\<close> does is insert the alert into
  \<open>self.alerts\<close>; the row is written two statements later. Called on a fresh monitor,
  its first state holds the alert in the readable list while the attendance file does not
  exist yet.
\<close>

theorem add_alert_visible_before_logged:
  "make_alert (now silent_world 0) laptop Departure None
     \<in> set (alerts (hd (add_alert_states silent_world laptop Departure None fresh_monitor)))
   \<and> attendance_file (hd (add_alert_states silent_world laptop Departure None fresh_monitor))
       = None"
  by (simp add: add_alert_states_def Let_def fresh_monitor_def)

text \<open>
  C3, amended: every call that records an alert first puts it at the head of the in-memory
  list, the attendance record being still as it was before the call, and afterwards, within
  the same call, appends its row to the attendance record; when the call returns, the alert
  is the newest entry of the list and its row is the last row of the record.
\<close>

theorem add_alert_order:
  "hd (alerts (hd (add_alert_states w d t msg m))) = make_alert (now w (ticks m)) d t msg
   \<and> attendance_file (hd (add_alert_states w d t msg m)) = attendance_file m
   \<and> hd (alerts (add_alert w d t msg m)) = make_alert (now w (ticks m)) d t msg
   \<and> (\<exists>rows. attendance_file (add_alert w d t msg m)
                = Some (rows @ [attendance_row (make_alert (now w (ticks m)) d t msg)]))"
  by (simp add: add_alert_eq) (simp add: add_alert_states_def Let_def)

lemma record_all_alerts:
  "calls \<noteq> [] \<or> length (alerts m) \<le> 1000 \<Longrightarrow> length (alerts (record_all w calls m)) \<le> 1000"
proof (induction calls arbitrary: m)
  case Nil
  then show ?case by (simp add: record_all_def)
next
  case (Cons c calls)
  obtain d t msg where c: "c = (d, t, msg)" by (cases c)
  have "length (alerts (add_alert w d t msg m)) \<le> 1000"
    by (simp add: add_alert_eq)
  then have "length (alerts (record_all w calls (add_alert w d t msg m))) \<le> 1000"
    using Cons.IH by blast
  then show ?case by (simp add: record_all_def c)
qed

lemma record_all_rows:
  "\<exists>new. length new = length calls
     \<and> attendance_file (record_all w (c # calls) m)
         = Some ((case attendance_file m of None \<Rightarrow> [attendance_header] | Some rows \<Rightarrow> rows)
                 @ attendance_row (make_alert (now w (ticks m)) (fst c) (fst (snd c)) (snd (snd c)))
                 # new)"
proof (induction calls arbitrary: m c)
  case Nil
  show ?case by (cases c) (simp add: record_all_def add_alert_eq)
next
  case (Cons c' calls)
  obtain d t msg where c: "c = (d, t, msg)" by (cases c)
  let ?m1 = "add_alert w d t msg m"
  from Cons.IH [of c' ?m1] obtain new where
    "length new = length calls"
    "attendance_file (record_all w (c' # calls) ?m1)
       = Some ((case attendance_file ?m1 of None \<Rightarrow> [attendance_header] | Some rows \<Rightarrow> rows)
               @ attendance_row (make_alert (now w (ticks ?m1)) (fst c') (fst (snd c')) (snd (snd c')))
               # new)"
    by blast
  then show ?case
    by (simp add: record_all_def c add_alert_eq)
qed

text \<open>
  C4: after a call of \<open>add_alert\<close> the in-memory list is the new alert followed by the
  old list, cut to its first 1000 entries, so it never holds more than 1000; the
  attendance file is the old file (the header, if there was no file) followed by exactly
  one new row. After any number \<open>n > 0\<close> of calls the list still holds at most 1000
  entries and the file is the old file followed by exactly \<open>n\<close> rows.
\<close>

theorem ledger_bounded_attendance_append:
  "length (alerts (add_alert w d t msg m)) \<le> 1000
   \<and> alerts (add_alert w d t msg m) = take 1000 (make_alert (now w (ticks m)) d t msg # alerts m)
   \<and> attendance_file (add_alert w d t msg m)
       = Some ((case attendance_file m of None \<Rightarrow> [attendance_header] | Some rows \<Rightarrow> rows)
               @ [attendance_row (make_alert (now w (ticks m)) d t msg)])
   \<and> (calls \<noteq> [] \<longrightarrow>
        length (alerts (record_all w calls m)) \<le> 1000
        \<and> (\<exists>new. length new = length calls
              \<and> attendance_file (record_all w calls m)
                  = Some ((case attendance_file m of None \<Rightarrow> [attendance_header]
                           | Some rows \<Rightarrow> rows) @ new)))"
proof -
  have "\<exists>new. length new = length calls
              \<and> attendance_file (record_all w calls m)
                  = Some ((case attendance_file m of None \<Rightarrow> [attendance_header]
                           | Some rows \<Rightarrow> rows) @ new)" if ne: "calls \<noteq> []"
  proof -
    obtain c cs where cs: "calls = c # cs" using ne by (cases calls) auto
    from record_all_rows [of cs w c m] obtain new where
      "length new = length cs"
      "attendance_file (record_all w (c # cs) m)
         = Some ((case attendance_file m of None \<Rightarrow> [attendance_header] | Some rows \<Rightarrow> rows)
                 @ attendance_row (make_alert (now w (ticks m)) (fst c) (fst (snd c)) (snd (snd c)))
                 # new)"
      by blast
    then show ?thesis
      unfolding cs
      by (intro exI [of _ "attendance_row
            (make_alert (now w (ticks m)) (fst c) (fst (snd c)) (snd (snd c))) # new"]) simp
  qed
  then show ?thesis
    using record_all_alerts [of calls m w] by (simp add: add_alert_eq)
qed

theorem ledger_bounded_attendance_append_witness:
  "[(laptop, Departure, None), (laptop, Arrival, None)] \<noteq> []
   \<and> length (alerts (record_all silent_world [(laptop, Departure, None), (laptop, Arrival, None)]
        fresh_monitor)) \<le> 1000"
  using ledger_bounded_attendance_append
    [of silent_world laptop Departure None fresh_monitor
        "[(laptop, Departure, None), (laptop, Arrival, None)]"]
  by simp

section \<open>Export\<close>

text \<open>
  C10: the alert built for a device does not depend on the device's signal strength or
  distance, so it stores neither. In the export, the Distance column of each row is the
  \<open>estimated_distance\<close> that the registry holds for the alert's address when the export
  runs (empty when the address is no longer a key, or the distance is undefined or zero);
  every other column is the same whatever the registry holds.
\<close>

theorem export_distance_is_current:
  "make_alert ts (d\<lparr>rssi := r, estimated_distance := x\<rparr>) t msg = make_alert ts d t msg
   \<and> map (\<lambda>r. r ! 6) (tl (export_attendance fmt today date_arg m))
       = map (\<lambda>a. case map_of (devices m) (alert_ip a) of
                     None \<Rightarrow> []
                   | Some d \<Rightarrow> (case estimated_distance d of
                                  None \<Rightarrow> []
                                | Some x \<Rightarrow> if x \<noteq> 0 then fmt x @ ''m'' else []))
           (filter (\<lambda>a. iso_date (alert_timestamp a)
                         = (case date_arg of None \<Rightarrow> today | Some s \<Rightarrow> s)) (alerts m))
   \<and> map (\<lambda>r. r[6 := []]) (export_attendance fmt today date_arg (m\<lparr>devices := devs'\<rparr>))
       = map (\<lambda>r. r[6 := []]) (export_attendance fmt today date_arg m)"
  by (simp add: make_alert_def export_attendance_def export_row_def Let_def
      split: option.split)

section \<open>Candidate addresses\<close>

lemma digit_inj:
  "i < 10 \<Longrightarrow> j < 10 \<Longrightarrow> ''0123456789'' ! i = ''0123456789'' ! j \<Longrightarrow> i = j"
  using nth_eq_iff_index_eq [of "''0123456789''" i j] by simp

lemma str_nat_not_Nil: "str_nat n \<noteq> []"
  by (subst str_nat.simps) simp

lemma str_nat_inj: "str_nat n = str_nat m \<Longrightarrow> n = m"
proof (induction n arbitrary: m rule: str_nat.induct)
  case (1 n)
  show ?case
  proof (cases "n < 10")
    case n: True
    show ?thesis
    proof (cases "m < 10")
      case True
      with n "1.prems" show ?thesis
        by (simp add: str_nat.simps [of n] str_nat.simps [of m] digit_inj)
    next
      case False
      with n "1.prems" show ?thesis
        using str_nat_not_Nil [of "m div 10"]
        by (simp add: str_nat.simps [of n] str_nat.simps [of m])
    qed
  next
    case n: False
    show ?thesis
    proof (cases "m < 10")
      case True
      with n "1.prems" show ?thesis
        using str_nat_not_Nil [of "n div 10"]
        by (simp add: str_nat.simps [of n] str_nat.simps [of m])
    next
      case False
      with n "1.prems" have eq: "str_nat (n div 10) = str_nat (m div 10)"
        and dg: "''0123456789'' ! (n mod 10) = ''0123456789'' ! (m mod 10)"
        by (simp_all add: str_nat.simps [of n] str_nat.simps [of m])
      from "1.IH" [OF n eq] have "n div 10 = m div 10" .
      moreover from dg have "n mod 10 = m mod 10"
        by (intro digit_inj) simp_all
      ultimately show ?thesis
        by (metis div_mult_mod_eq)
    qed
  qed
qed

lemma distinct_candidates: "distinct (candidates base)"
  unfolding candidates_def
  by (simp add: distinct_map inj_on_def str_nat_inj)

lemma filter_eq_single: "distinct xs \<Longrightarrow> x \<in> set xs \<Longrightarrow> filter (\<lambda>a. a = x) xs = [x]"
  by (induction xs) (auto simp: filter_empty_conv)

lemma candidate_7: "''192.168.1.7'' \<in> set (candidates ''192.168.1'')"
proof -
  have "''192.168.1.7'' = ''192.168.1'' @ ''.'' @ str_nat 7"
    by (simp add: str_nat.simps)
  moreover have "(7::nat) \<in> set [1..<255]" by simp
  ultimately show ?thesis
    unfolding candidates_def by (metis (mono_tags, lifting) image_eqI set_map)
qed

section \<open>Scan cycle: auxiliary facts\<close>

lemma type_str_inj: "type_str t = type_str t' \<longleftrightarrow> t = t'"
  by (cases t; cases t') (simp_all add: type_str_def)

lemma header_not_alert [simp]: "attendance_header ! Suc 0 \<noteq> type_str t"
  by (cases t) (simp_all add: type_str_def attendance_header_def)

lemma logged_add_alert:
  "logged ty a (add_alert w d t msg m) = logged ty a m + (if t = ty \<and> ip d = a then 1 else 0)"
  by (simp add: logged_def attendance_rows_def add_alert_eq attendance_row_def
      make_alert_def type_str_inj split: option.split)

lemma add_alert_frame [simp]:
  "devices (add_alert w d t msg m) = devices m"
  "monitoring (add_alert w d t msg m) = monitoring m"
  "distance_mode (add_alert w d t msg m) = distance_mode m"
  "calibration (add_alert w d t msg m) = calibration m"
  "scanning (add_alert w d t msg m) = scanning m"
  by (simp_all add: add_alert_eq)

lemma distance_check_frame [simp]:
  "devices (distance_check w pd a x m) = devices m"
  "monitoring (distance_check w pd a x m) = monitoring m"
  "distance_mode (distance_check w pd a x m) = distance_mode m"
  "calibration (distance_check w pd a x m) = calibration m"
  "scanning (distance_check w pd a x m) = scanning m"
  by (simp_all add: distance_check_def Let_def split: option.split prod.split)

lemma logged_distance_check:
  "ty \<noteq> Distance \<Longrightarrow> logged ty b (distance_check w pd a x m) = logged ty b m"
  by (simp add: distance_check_def Let_def logged_add_alert split: option.split prod.split)

subsection \<open>One host\<close>

lemma logged_frame [simp]:
  "logged ty b (m\<lparr>devices := ds\<rparr>) = logged ty b m"
  "logged ty b (m\<lparr>ticks := n\<rparr>) = logged ty b m"
  "logged ty b (m\<lparr>scanning := s\<rparr>) = logged ty b m"
  by (simp_all add: logged_def attendance_rows_def)

lemma logged_save_data [simp]: "logged ty b (save_data m) = logged ty b m"
  by (simp add: logged_def attendance_rows_def save_data_def)

lemma list_all_update: "list_all P devs \<Longrightarrow> P (a, d) \<Longrightarrow> list_all P (AList.update a d devs)"
  by (induction devs) auto

lemma wf_registry_update:
  "wf_registry devs \<Longrightarrow> ip d = a \<Longrightarrow> wf_registry (AList.update a d devs)"
  by (simp add: wf_registry_def distinct_update list_all_update)

lemma list_all_map_entry:
  "list_all (\<lambda>(k, d). ip d = k) devs \<Longrightarrow> (\<And>d. ip (f d) = ip d)
   \<Longrightarrow> list_all (\<lambda>(k, d). ip d = k) (AList.map_entry a f devs)"
  by (induction devs) auto

lemma wf_registry_map_entry:
  "wf_registry devs \<Longrightarrow> (\<And>d. ip (f d) = ip d) \<Longrightarrow> wf_registry (AList.map_entry a f devs)"
  by (simp add: wf_registry_def map_fst_map_entry list_all_map_entry)

lemma scan_host_silent: "\<not> ping w a \<Longrightarrow> scan_host w pd a m = Inr m"
  by (simp add: scan_host_def)

lemma ping_with_stats_nonzero: "ping_with_stats w a \<noteq> 0"
  by (simp add: ping_with_stats_def split: option.split)

lemma ping_with_stats_bucket: "ping_with_stats w a \<in> set signal_strengths"
  by (simp add: ping_with_stats_def signal_strengths_def split: option.split)

lemma scan_host_returns:
  assumes "\<not> distance_mode m \<or> estimates_defined (calibration m)"
  shows "\<exists>m'. scan_host w pd a m = Inr m'"
proof (cases "distance_mode m")
  case False
  then show ?thesis
    by (simp add: scan_host_def Let_def mark_online_def register_host_def)
next
  case True
  with assms have "\<not> isl (calculate_distance (calibration m) (Some (ping_with_stats w a)))"
    using ping_with_stats_bucket [of w a] by (auto simp: estimates_defined_def list_all_iff)
  then obtain x where "calculate_distance (calibration m) (Some (ping_with_stats w a)) = Inr x"
    by (cases "calculate_distance (calibration m) (Some (ping_with_stats w a))") auto
  then show ?thesis
    by (simp add: scan_host_def Let_def mark_online_def register_host_def)
qed

lemma scan_host_frame:
  assumes "scan_host w pd a m = Inr m'"
  shows "monitoring m' = monitoring m" and "distance_mode m' = distance_mode m"
    and "calibration m' = calibration m"
    and "ty \<noteq> Distance \<Longrightarrow> logged ty b m' = logged ty b m"
  using assms
  by (auto simp: scan_host_def Let_def mark_online_def register_host_def logged_distance_check
      split: if_splits sum.splits)

lemma scan_host_wf:
  assumes "scan_host w pd a m = Inr m'" and "wf_registry (devices m)"
  shows "wf_registry (devices m')"
  using assms
  by (auto simp: scan_host_def Let_def mark_online_def register_host_def new_device_def
      intro!: wf_registry_map_entry wf_registry_update split: if_splits sum.splits)

lemma scan_host_entry:
  assumes "scan_host w pd a m = Inr m'" and "map_of (devices m) k = Some d"
  shows "\<exists>d'. map_of (devices m') k = Some d' \<and> monitored d' = monitored d \<and> ip d' = ip d
           \<and> (online d' \<longleftrightarrow> online d \<or> (k = a \<and> ping w a))"
  using assms
  by (auto simp: scan_host_def Let_def mark_online_def register_host_def map_of_map_entry
      update_conv' split: if_splits sum.splits)


subsection \<open>The sweep\<close>

lemma sweep_returns:
  "\<not> distance_mode m \<or> estimates_defined (calibration m) \<Longrightarrow> \<exists>m'. sweep w pd as m = Inr m'"
proof (induction as arbitrary: m)
  case Nil
  show ?case by simp
next
  case (Cons a as)
  from scan_host_returns [OF Cons.prems] obtain m1 where m1: "scan_host w pd a m = Inr m1"
    by blast
  have "\<not> distance_mode m1 \<or> estimates_defined (calibration m1)"
    using Cons.prems scan_host_frame(2,3) [OF m1] by simp
  from Cons.IH [OF this] show ?case by (simp add: m1)
qed

lemma sweep_frame:
  assumes "sweep w pd as m = Inr m'"
  shows "monitoring m' = monitoring m \<and> distance_mode m' = distance_mode m
    \<and> calibration m' = calibration m
    \<and> (ty \<noteq> Distance \<longrightarrow> logged ty b m' = logged ty b m)"
  using assms
proof (induction as arbitrary: m)
  case Nil
  then show ?case by simp
next
  case (Cons a as)
  from Cons.prems obtain m1 where m1: "scan_host w pd a m = Inr m1"
    and rest: "sweep w pd as m1 = Inr m'"
    by (auto split: sum.splits)
  show ?case
    using Cons.IH [OF rest] scan_host_frame(1,2,3) [OF m1] scan_host_frame(4) [OF m1, of ty b]
    by simp
qed

lemma sweep_wf:
  assumes "sweep w pd as m = Inr m'" and "wf_registry (devices m)"
  shows "wf_registry (devices m')"
  using assms
proof (induction as arbitrary: m)
  case Nil
  then show ?case by simp
next
  case (Cons a as)
  from Cons.prems obtain m1 where m1: "scan_host w pd a m = Inr m1"
    and rest: "sweep w pd as m1 = Inr m'"
    by (auto split: sum.splits)
  show ?case
    using Cons.IH [OF rest] scan_host_wf [OF m1] Cons.prems(2) by simp
qed

lemma sweep_entry:
  assumes "sweep w pd as m = Inr m'" and "map_of (devices m) k = Some d"
  shows "\<exists>d'. map_of (devices m') k = Some d' \<and> monitored d' = monitored d \<and> ip d' = ip d
           \<and> (online d' \<longleftrightarrow> online d \<or> (k \<in> set as \<and> ping w k))"
  using assms
proof (induction as arbitrary: m d)
  case Nil
  then show ?case by simp
next
  case (Cons a as)
  from Cons.prems obtain m1 where m1: "scan_host w pd a m = Inr m1"
    and rest: "sweep w pd as m1 = Inr m'"
    by (auto split: sum.splits)
  from scan_host_entry [OF m1 Cons.prems(2)] obtain d1 where
    d1: "map_of (devices m1) k = Some d1" "monitored d1 = monitored d" "ip d1 = ip d"
      "online d1 \<longleftrightarrow> online d \<or> (k = a \<and> ping w a)"
    by blast
  from Cons.IH [OF rest d1(1)] obtain d' where
    "map_of (devices m') k = Some d'" "monitored d' = monitored d1" "ip d' = ip d1"
    "online d' \<longleftrightarrow> online d1 \<or> (k \<in> set as \<and> ping w k)"
    by blast
  with d1 show ?case by auto
qed

lemma sweep_silent: "(\<And>a. a \<in> set as \<Longrightarrow> \<not> ping w a) \<Longrightarrow> sweep w pd as m = Inr m"
  by (induction as) (simp_all add: scan_host_silent)

lemma sweep_filter: "sweep w pd as m = sweep w pd (filter (ping w) as) m"
  by (induction as arbitrary: m) (auto simp: scan_host_silent split: sum.splits)

subsection \<open>The presence transitions\<close>

lemma logged_presence:
  "logged ty b (fold (presence_step w po) devs m)
     = logged ty b m
       + length (filter (\<lambda>(k, d). ip d = b \<and> monitored d
           \<and> (if (case map_of po k of None \<Rightarrow> False | Some v \<Rightarrow> v)
               then \<not> online d \<and> ty = Departure else online d \<and> ty = Arrival)) devs)"
proof (induction devs arbitrary: m)
  case Nil
  show ?case by simp
next
  case (Cons kd devs)
  obtain k d where kd: "kd = (k, d)" by (cases kd)
  show ?case
    by (simp add: kd Cons.IH) (auto simp: presence_step_def Let_def logged_add_alert)
qed

lemma filter_registry_key:
  assumes "distinct (map fst devs)" and "list_all (\<lambda>(k, d). ip d = k) devs"
    and "map_of devs a = Some d"
  shows "length (filter (\<lambda>(k, d'). ip d' = a \<and> Q k d') devs) = (if Q a d then 1 else 0)"
  using assms
proof (induction devs)
  case Nil
  then show ?case by simp
next
  case (Cons kd devs)
  obtain k d0 where kd: "kd = (k, d0)" by (cases kd)
  show ?case
  proof (cases "k = a")
    case True
    have "filter (\<lambda>(k, d'). ip d' = a \<and> Q k d') devs = []"
      using Cons.prems(1,2) True kd
      by (auto simp: filter_empty_conv list_all_iff) force
    then show ?thesis
      using Cons.prems True kd by simp
  next
    case False
    then show ?thesis
      using Cons kd by auto
  qed
qed


subsection \<open>The whole cycle\<close>

lemma map_of_cleared:
  "map_of (map (\<lambda>(k, d). (k, d\<lparr>online := False\<rparr>)) devs) k
     = map_option (\<lambda>d. d\<lparr>online := False\<rparr>) (map_of devs k)"
  by (induction devs) auto

lemma map_of_previous_online:
  "map_of (map (\<lambda>(k, d). (k, online d)) devs) k = map_option online (map_of devs k)"
  by (induction devs) auto

lemma wf_registry_cleared:
  "wf_registry devs \<Longrightarrow> wf_registry (map (\<lambda>(k, d). (k, d\<lparr>online := False\<rparr>)) devs)"
  unfolding wf_registry_def
  by (induction devs) (auto simp: image_iff)

lemma wf_registry_ip: "wf_registry devs \<Longrightarrow> map_of devs a = Some d \<Longrightarrow> ip d = a"
  unfolding wf_registry_def list_all_iff
  by (auto dest: map_of_SomeD)

lemma scan_returns:
  "\<not> distance_mode m \<or> estimates_defined (calibration m) \<Longrightarrow> \<exists>m'. scan w m = Inr m'"
proof -
  assume a: "\<not> distance_mode m \<or> estimates_defined (calibration m)"
  let ?m2 = "m\<lparr>scanning := True,
    devices := map (\<lambda>(k, d). (k, d\<lparr>online := False\<rparr>)) (devices m)\<rparr>"
  from a have "\<not> distance_mode ?m2 \<or> estimates_defined (calibration ?m2)" by simp
  from sweep_returns [OF this] show ?thesis
    by (auto simp: scan_def Let_def split: sum.splits) (metis Inl_Inr_False)
qed

lemma scan_presence:
  assumes run: "scan w m = Inr m'" and idle: "\<not> scanning m"
    and wf: "wf_registry (devices m)" and d: "map_of (devices m) a = Some d"
  shows "logged Departure a m'
           = logged Departure a m
             + (if monitoring m \<and> monitored d \<and> online d \<and> \<not> reachable w a then 1 else 0)"
    and "logged Arrival a m'
           = logged Arrival a m
             + (if monitoring m \<and> monitored d \<and> \<not> online d \<and> reachable w a then 1 else 0)"
proof -
  define po where "po = map (\<lambda>(k, d). (k, online d)) (devices m)"
  define pd where "pd = map (\<lambda>(k, d). (k, estimated_distance d)) (devices m)"
  define m2 where "m2 = m\<lparr>scanning := True,
    devices := map (\<lambda>(k, d). (k, d\<lparr>online := False\<rparr>)) (devices m)\<rparr>"
  from run idle obtain m3 where
    sw: "sweep w pd (candidates (fst (local_network w))) m2 = Inr m3"
    and m': "m' = save_data
      ((if monitoring m3 then fold (presence_step w po) (devices m3) m3 else m3)
        \<lparr>scanning := False\<rparr>)"
    by (auto simp: scan_def Let_def po_def pd_def m2_def split: sum.splits)
  have mon3: "monitoring m3 = monitoring m"
    using sweep_frame [OF sw, of Arrival a] by (simp add: m2_def)
  have log3: "logged Departure a m3 = logged Departure a m"
    "logged Arrival a m3 = logged Arrival a m"
    using sweep_frame [OF sw, of Departure a] sweep_frame [OF sw, of Arrival a]
    by (simp_all add: m2_def)
  have wf3: "wf_registry (devices m3)"
    using sweep_wf [OF sw] wf by (simp add: m2_def wf_registry_cleared)
  have "map_of (devices m2) a = Some (d\<lparr>online := False\<rparr>)"
    using d by (simp add: m2_def map_of_cleared)
  from sweep_entry [OF sw this] obtain d3 where
    d3: "map_of (devices m3) a = Some d3" "monitored d3 = monitored d"
      "online d3 \<longleftrightarrow> reachable w a"
    by (auto simp: reachable_def)
  have was: "(case map_of po a of None \<Rightarrow> False | Some v \<Rightarrow> v) = online d"
    using d by (simp add: po_def map_of_previous_online)
  have cnt: "length (filter (\<lambda>(k, d'). ip d' = a \<and> monitored d'
           \<and> (if (case map_of po k of None \<Rightarrow> False | Some v \<Rightarrow> v)
               then \<not> online d' \<and> ty = Departure else online d' \<and> ty = Arrival)) (devices m3))
       = (if monitored d3
           \<and> (if (case map_of po a of None \<Rightarrow> False | Some v \<Rightarrow> v)
               then \<not> online d3 \<and> ty = Departure else online d3 \<and> ty = Arrival)
          then 1 else 0)" for ty
    using wf3 d3(1)
      filter_registry_key [of "devices m3" a d3
        "\<lambda>k d'. monitored d'
           \<and> (if (case map_of po k of None \<Rightarrow> False | Some v \<Rightarrow> v)
               then \<not> online d' \<and> ty = Departure else online d' \<and> ty = Arrival)"]
    by (simp add: wf_registry_def)
  have fin: "logged ty a m'
      = (if monitoring m then logged ty a (fold (presence_step w po) (devices m3) m3)
         else logged ty a m3)" for ty
    using mon3 by (simp add: m')
  show "logged Departure a m'
           = logged Departure a m
             + (if monitoring m \<and> monitored d \<and> online d \<and> \<not> reachable w a then 1 else 0)"
    unfolding fin logged_presence cnt was using d3 log3 by simp
  show "logged Arrival a m'
           = logged Arrival a m
             + (if monitoring m \<and> monitored d \<and> \<not> online d \<and> reachable w a then 1 else 0)"
    unfolding fin logged_presence cnt was using d3 log3 by simp
qed

lemma presence_devices [simp]: "devices (fold (presence_step w po) devs m) = devices m"
  by (induction devs arbitrary: m) (auto simp: presence_step_def Let_def)

lemma scan_wf:
  assumes "scan w m = Inr m'" and "wf_registry (devices m)"
  shows "wf_registry (devices m')"
proof (cases "scanning m")
  case True
  with assms show ?thesis by (simp add: scan_def)
next
  case False
  define pd where "pd = map (\<lambda>(k, d). (k, estimated_distance d)) (devices m)"
  define m2 where "m2 = m\<lparr>scanning := True,
    devices := map (\<lambda>(k, d). (k, d\<lparr>online := False\<rparr>)) (devices m)\<rparr>"
  from assms(1) False obtain m3 where
    sw: "sweep w pd (candidates (fst (local_network w))) m2 = Inr m3"
    and m': "devices m' = devices m3"
    by (auto simp: scan_def Let_def pd_def m2_def save_data_def split: sum.splits)
  show ?thesis
    using sweep_wf [OF sw] assms(2) by (simp add: m2_def m' wf_registry_cleared)
qed


subsection \<open>The example networks\<close>

lemma candidates_lone: "filter (ping lone_world) (candidates ''192.168.1'') = [''192.168.1.7'']"
  using filter_eq_single [OF distinct_candidates candidate_7]
  by (simp add: lone_world_def silent_world_def)

lemma sweep_lone:
  "sweep lone_world pd (candidates ''192.168.1'') m = scan_host lone_world pd ''192.168.1.7'' m"
  by (subst sweep_filter) (simp add: candidates_lone split: sum.split)

lemma sweep_silent_world: "sweep silent_world pd as m = Inr m"
  by (rule sweep_silent) (simp add: silent_world_def)

lemma lone_world_simps:
  "local_network lone_world = (''192.168.1'', ''192.168.1.10'')"
  "ping lone_world a = (a = ''192.168.1.7'')"
  "avg_time lone_world a = Some 30"
  "now lone_world n = ''2024-05-01T09:00:00''"
  by (simp_all add: lone_world_def silent_world_def)

lemma silent_world_simps:
  "local_network silent_world = (''192.168.1'', ''192.168.1.10'')"
  "ping silent_world a = False"
  "now silent_world n = ''2024-05-01T09:00:00''"
  by (simp_all add: silent_world_def)

section \<open>Presence transitions\<close>

text \<open>
  C5, as stated, fails: the transitions are evaluated only under \<open>if self.monitoring\<close>.
  With monitoring off, a monitored laptop that was online and does not answer is marked
  offline, and no departure alert is recorded: the alert list stays empty and no
  attendance file is written.
\<close>

theorem departure_needs_monitoring:
  "monitored laptop \<and> online laptop \<and> \<not> reachable silent_world ''192.168.1.7''
   \<and> map_of (devices office) ''192.168.1.7'' = Some laptop \<and> \<not> monitoring office
   \<and> scan silent_world office
       = Inr (office\<lparr>devices := [(''192.168.1.7'', laptop\<lparr>online := False\<rparr>)],
                save_file := Some [(''192.168.1.7'', laptop\<lparr>online := False\<rparr>)],
                alerts_file := Some []\<rparr>)
   \<and> alerts office = [] \<and> attendance_file office = None"
  by (simp add: scan_def Let_def sweep_silent_world silent_world_simps reachable_def)
    (simp add: laptop_def office_def fresh_monitor_def save_data_def)

text \<open>
  C5, amended: for every device of the registry with \<open>monitored = true\<close>, in every scan
  cycle that is not rejected by the reentrancy guard and runs to completion: while
  monitoring is enabled, if the device was online in the previous snapshot and is
  unreachable now, exactly one departure and no arrival is logged for it, and if it was
  offline and is reachable now, exactly one arrival and no departure; one failed probe is
  enough. While monitoring is disabled, neither an arrival nor a departure is logged for
  it. The cycle does run to completion when distance mode is off, or when the distance
  estimate raises for none of the six signal strengths the probe can report.
\<close>

theorem presence_transition_alerts:
  assumes "\<not> scanning m" and "wf_registry (devices m)"
    and "map_of (devices m) a = Some d" and "monitored d"
  shows "(\<not> distance_mode m \<or> estimates_defined (calibration m) \<longrightarrow> (\<exists>m'. scan w m = Inr m'))
    \<and> (\<forall>m'. scan w m = Inr m' \<longrightarrow>
         (monitoring m \<and> online d \<and> \<not> reachable w a \<longrightarrow>
            logged Departure a m' = logged Departure a m + 1
            \<and> logged Arrival a m' = logged Arrival a m)
         \<and> (monitoring m \<and> \<not> online d \<and> reachable w a \<longrightarrow>
            logged Arrival a m' = logged Arrival a m + 1
            \<and> logged Departure a m' = logged Departure a m)
         \<and> (\<not> monitoring m \<longrightarrow>
            logged Departure a m' = logged Departure a m
            \<and> logged Arrival a m' = logged Arrival a m))"
proof (intro conjI impI allI)
  assume "\<not> distance_mode m \<or> estimates_defined (calibration m)"
  then show "\<exists>m'. scan w m = Inr m'" by (rule scan_returns)
next
  fix m'
  assume run: "scan w m = Inr m'"
  note cnt = scan_presence [OF run assms(1,2,3)]
  {
    assume "monitoring m \<and> online d \<and> \<not> reachable w a"
    then show "logged Departure a m' = logged Departure a m + 1"
      and "logged Arrival a m' = logged Arrival a m"
      using cnt assms(4) by simp_all
  }
  {
    assume "monitoring m \<and> \<not> online d \<and> reachable w a"
    then show "logged Arrival a m' = logged Arrival a m + 1"
      and "logged Departure a m' = logged Departure a m"
      using cnt assms(4) by simp_all
  }
  {
    assume "\<not> monitoring m"
    then show "logged Departure a m' = logged Departure a m"
      and "logged Arrival a m' = logged Arrival a m"
      using cnt by simp_all
  }
qed

theorem presence_transition_alerts_witness:
  "(\<not> scanning (office\<lparr>monitoring := True\<rparr>) \<and> monitoring (office\<lparr>monitoring := True\<rparr>)
    \<and> \<not> distance_mode (office\<lparr>monitoring := True\<rparr>)
    \<and> wf_registry (devices (office\<lparr>monitoring := True\<rparr>))
    \<and> map_of (devices (office\<lparr>monitoring := True\<rparr>)) ''192.168.1.7'' = Some laptop
    \<and> monitored laptop \<and> online laptop \<and> \<not> reachable silent_world ''192.168.1.7'')
   \<and> (\<exists>m'. scan silent_world (office\<lparr>monitoring := True\<rparr>) = Inr m'
        \<and> logged Departure ''192.168.1.7'' m'
            = logged Departure ''192.168.1.7'' (office\<lparr>monitoring := True\<rparr>) + 1
        \<and> logged Arrival ''192.168.1.7'' m'
            = logged Arrival ''192.168.1.7'' (office\<lparr>monitoring := True\<rparr>))
   \<and> (map_of (devices (office\<lparr>monitoring := True,
          devices := [(''192.168.1.7'', laptop\<lparr>online := False\<rparr>)]\<rparr>)) ''192.168.1.7''
        = Some (laptop\<lparr>online := False\<rparr>)
       \<and> \<not> online (laptop\<lparr>online := False\<rparr>) \<and> reachable lone_world ''192.168.1.7'')
   \<and> (\<exists>m'. scan lone_world (office\<lparr>monitoring := True,
          devices := [(''192.168.1.7'', laptop\<lparr>online := False\<rparr>)]\<rparr>) = Inr m'
        \<and> logged Arrival ''192.168.1.7'' m'
            = logged Arrival ''192.168.1.7'' (office\<lparr>monitoring := True,
                devices := [(''192.168.1.7'', laptop\<lparr>online := False\<rparr>)]\<rparr>) + 1
        \<and> logged Departure ''192.168.1.7'' m'
            = logged Departure ''192.168.1.7'' (office\<lparr>monitoring := True,
                devices := [(''192.168.1.7'', laptop\<lparr>online := False\<rparr>)]\<rparr>))
   \<and> (\<not> monitoring office
       \<and> (\<exists>m'. scan silent_world office = Inr m'
            \<and> logged Departure ''192.168.1.7'' m' = logged Departure ''192.168.1.7'' office
            \<and> logged Arrival ''192.168.1.7'' m' = logged Arrival ''192.168.1.7'' office))"
proof -
  let ?m = "office\<lparr>monitoring := True\<rparr>"
  let ?n = "office\<lparr>monitoring := True,
    devices := [(''192.168.1.7'', laptop\<lparr>online := False\<rparr>)]\<rparr>"
  have h: "\<not> scanning ?m" "wf_registry (devices ?m)"
    "map_of (devices ?m) ''192.168.1.7'' = Some laptop" "monitored laptop"
    by (simp_all add: office_def fresh_monitor_def wf_registry_def laptop_def)
  have k: "monitoring ?m" "\<not> distance_mode ?m"
    by (simp_all add: office_def fresh_monitor_def)
  have g: "online laptop \<and> \<not> reachable silent_world ''192.168.1.7''"
    by (simp add: laptop_def reachable_def silent_world_simps)
  have h': "\<not> scanning ?n" "wf_registry (devices ?n)"
    "map_of (devices ?n) ''192.168.1.7'' = Some (laptop\<lparr>online := False\<rparr>)"
    "monitored (laptop\<lparr>online := False\<rparr>)"
    by (simp_all add: office_def fresh_monitor_def wf_registry_def laptop_def)
  have k': "monitoring ?n" "\<not> distance_mode ?n"
    by (simp_all add: office_def fresh_monitor_def)
  have g': "\<not> online (laptop\<lparr>online := False\<rparr>) \<and> reachable lone_world ''192.168.1.7''"
    using candidate_7 by (simp add: reachable_def lone_world_simps)
  have h'': "\<not> scanning office" "wf_registry (devices office)"
    "map_of (devices office) ''192.168.1.7'' = Some laptop"
    by (simp_all add: office_def fresh_monitor_def wf_registry_def laptop_def)
  have k'': "\<not> monitoring office" "\<not> distance_mode office"
    by (simp_all add: office_def fresh_monitor_def)
  from presence_transition_alerts [OF h, of silent_world] k g
  have 1: "\<exists>m'. scan silent_world ?m = Inr m'
        \<and> logged Departure ''192.168.1.7'' m' = logged Departure ''192.168.1.7'' ?m + 1
        \<and> logged Arrival ''192.168.1.7'' m' = logged Arrival ''192.168.1.7'' ?m"
    by blast
  from presence_transition_alerts [OF h', of lone_world] k' g'
  have 2: "\<exists>m'. scan lone_world ?n = Inr m'
        \<and> logged Arrival ''192.168.1.7'' m' = logged Arrival ''192.168.1.7'' ?n + 1
        \<and> logged Departure ''192.168.1.7'' m' = logged Departure ''192.168.1.7'' ?n"
    by blast
  from presence_transition_alerts [OF h'' h(4), of silent_world] k''
  have 3: "\<exists>m'. scan silent_world office = Inr m'
        \<and> logged Departure ''192.168.1.7'' m' = logged Departure ''192.168.1.7'' office
        \<and> logged Arrival ''192.168.1.7'' m' = logged Arrival ''192.168.1.7'' office"
    by blast
  show ?thesis
    using 1 2 3 h k g h'(3) g' k''(1) by blast
qed

section \<open>Unmonitored devices\<close>

text \<open>
  The transitions of line 1407 skip a device whose \<open>monitored\<close> flag is off, so a cycle
  that completes logs no arrival and no departure for it.
\<close>

lemma unmonitored_no_presence_alert:
  assumes "scan w m = Inr m'" and "\<not> scanning m"
    and "wf_registry (devices m)" and "map_of (devices m) a = Some d" and "\<not> monitored d"
  shows "logged Departure a m' = logged Departure a m \<and> logged Arrival a m' = logged Arrival a m"
  using scan_presence [OF assms(1,2,3,4)] assms(5) by simp

text \<open>
  C2 does not hold of the code: the distance check of line 1388 tests \<open>self.monitoring\<close>
  but, unlike the arrival and departure check of line 1407, not the \<open>monitored\<close> flag
  of the device. An unmonitored laptop last seen at 8 metres (on-site) that answers after
  30 ms is now estimated at 100 metres (away), and the cycle records a distance alert for
  it, in the list and in the attendance file.
\<close>

theorem unmonitored_distance_alert:
  "\<not> monitored (laptop\<lparr>monitored := False\<rparr>)
   \<and> map_of (devices guest_office) ''192.168.1.7'' = Some (laptop\<lparr>monitored := False\<rparr>)
   \<and> \<not> isl (scan lone_world guest_office)
   \<and> map (\<lambda>x. (alert_type x, alert_ip x)) (alerts (projr (scan lone_world guest_office)))
       = [(Distance, ''192.168.1.7'')]
   \<and> logged Distance ''192.168.1.7'' (projr (scan lone_world guest_office)) = 1
   \<and> logged Distance ''192.168.1.7'' guest_office = 0"
proof -
  have "scan lone_world guest_office =
    Inr (guest_office
      \<lparr>devices := [(''192.168.1.7'',
          laptop\<lparr>monitored := False, online := True, last_seen := Some ''2024-05-01T09:00:00'',
            rssi := Some (- 80), estimated_distance := Some 100\<rparr>)],
       alerts := [make_alert ''2024-05-01T09:00:00'' (laptop\<lparr>monitored := False\<rparr>) Distance
          (Some (distance_message laptop ''192.168.1.7'' 8 100))],
       save_file := Some [(''192.168.1.7'',
          laptop\<lparr>monitored := False, online := True, last_seen := Some ''2024-05-01T09:00:00'',
            rssi := Some (- 80), estimated_distance := Some 100\<rparr>)],
       alerts_file := Some [make_alert ''2024-05-01T09:00:00'' (laptop\<lparr>monitored := False\<rparr>)
          Distance (Some (distance_message laptop ''192.168.1.7'' 8 100))],
       attendance_file := Some [attendance_header,
          attendance_row (make_alert ''2024-05-01T09:00:00'' (laptop\<lparr>monitored := False\<rparr>)
            Distance (Some (distance_message laptop ''192.168.1.7'' 8 100)))],
       ticks := 2\<rparr>)"
    by (simp add: scan_def Let_def lone_world_simps sweep_lone scan_host_def register_host_def
        mark_online_def)
      (simp add: guest_office_def fresh_monitor_def laptop_def
        ping_with_stats_def calculate_distance_def py_round1_def distance_check_def truthy_def
        get_zone_def add_alert_eq make_alert_def distance_message_def display_name_def
        py_str_def float_overflow_large double_of_def float_exponent.simps pow2_def
        round_even_def
        presence_step_def save_data_def lone_world_simps)
  then show ?thesis
    by (simp add: logged_def attendance_rows_def attendance_row_def make_alert_def
        type_str_def attendance_header_def guest_office_def fresh_monitor_def laptop_def)
qed

end
